theory Spec2Isabelle
  imports Main "HOL-Library.Sublist"
begin

section \<open>Strings and errors\<close>

text \<open>
  A Python \<open>str\<close> is modelled as a \<open>string\<close>, one \<open>char\<close> per code point: the strings
  of the model are those with code points below 256, which include all the literals of
  this program, and no operation looks at a character other than by comparing it with
  one of \<open>/ - _ .\<close> An f-string is the concatenation of its pieces. Exceptions are values
  of the type \<open>error\<close>, and a computation that may raise returns \<open>error + 'a\<close>.
\<close>

datatype error =
    ValueError string
  | NotImplementedError string
  | IndexError
  | ValidationError string

text \<open>\<open>sub in s\<close> on strings.\<close>

definition str_contains :: "string \<Rightarrow> string \<Rightarrow> bool" where
  "str_contains s sub = sublist sub s"

text \<open>\<open>s.startswith(c)\<close> for a one-character string \<open>c\<close>.\<close>

fun startswith_char :: "string \<Rightarrow> char \<Rightarrow> bool" where
  "startswith_char [] c = False"
| "startswith_char (x # xs) c = (x = c)"

text \<open>\<open>s.replace(old, new)\<close> where \<open>old\<close> and \<open>new\<close> are one-character strings.\<close>

definition str_replace_char :: "char \<Rightarrow> char \<Rightarrow> string \<Rightarrow> string" where
  "str_replace_char old new s = map (\<lambda>c. if c = old then new else c) s"

section \<open>file\_type.py\<close>

record FileType =
  pattern :: string
  description :: string
  needed_pipeline :: "string option"

definition check_pattern_message :: string where
  "check_pattern_message =
     ''pattern argument cannot start with char: / (does not work in os.path.join function). '' @
     ''If you want to indicate the exact name of the file, use the format '' @
     ''directory_name/filename.extension or filename.extension in the pattern argument.''"

text \<open>
  The field validator of \<open>pattern\<close>. It reads \<open>v[0]\<close>, which raises \<open>IndexError\<close> on the
  empty string.
\<close>

fun check_pattern :: "string \<Rightarrow> error + string" where
  "check_pattern [] = Inl IndexError"
| "check_pattern (c # cs) =
     (if c = CHR ''/'' then Inl (ValueError check_pattern_message) else Inr (c # cs))"

text \<open>
  Construction of a \<open>FileType\<close> from strings: the validator runs on the pattern; a
  \<open>ValueError\<close> of a validator is reported by pydantic as a validation error carrying the
  message, any other exception passes through unchanged.
\<close>

definition FileType_init :: "string \<Rightarrow> string \<Rightarrow> string option \<Rightarrow> error + FileType" where
  "FileType_init p d np =
     (case check_pattern p of
        Inl (ValueError m) \<Rightarrow> Inl (ValidationError m)
      | Inl e \<Rightarrow> Inl e
      | Inr v \<Rightarrow> Inr \<lparr>pattern = v, description = d, needed_pipeline = np\<rparr>)"

definition accepted :: "error + 'a \<Rightarrow> bool" where
  "accepted r = (case r of Inl _ \<Rightarrow> False | Inr _ \<Rightarrow> True)"

definition is_validation_error :: "error + 'a \<Rightarrow> bool" where
  "is_validation_error r = (case r of Inl (ValidationError _) \<Rightarrow> True | _ \<Rightarrow> False)"

section \<open>The enumerations\<close>

text \<open>
  The module \<open>enum.py\<close> is not among the sources. What the code uses of it is modelled
  here as follows.

  \<^item> \<open>Preprocessing\<close> has the six members the code and the specification name.
  \<^item> Of \<open>LinearModality\<close> and \<open>ImageModality\<close> the members the code names.
  \<^item> A member of \<open>Tracer\<close>, \<open>SUVRReferenceRegions\<close>, \<open>DTIMeasure\<close> or \<open>DTISpace\<close> is
    represented by its \<open>value\<close>, a string: the code reads nothing else of it.
  \<^item> Everything else the module decides is a field of the record \<open>enum_module\<close>, which
    the operations take as a parameter: the \<open>value\<close> of the members, the members used as
    defaults, whether \<open>Preprocessing\<close> and \<open>Tracer\<close> derive from \<open>str\<close> (a member of a
    \<open>str\<close> enumeration is accepted by pydantic where a \<open>str\<close> is declared, one of a plain
    enumeration is not; a member of a \<open>str\<close> enumeration is false in a condition when its
    value is empty, one of a plain enumeration is always true), how a \<open>DTISpace\<close> member is
    formatted in an f-string, and what \<open>Preprocessing(s)\<close> does on a string that is no
    member's value.
\<close>

datatype Preprocessing = T1_LINEAR | T2_LINEAR | FLAIR_LINEAR | PET_LINEAR | CUSTOM | DWI_DTI

definition Preprocessing_members :: "Preprocessing list" where
  "Preprocessing_members = [T1_LINEAR, T2_LINEAR, FLAIR_LINEAR, PET_LINEAR, CUSTOM, DWI_DTI]"

datatype LinearModality = T1W | T2W | FLAIR

datatype ImageModality = ImageModality_PET | ImageModality_CUSTOM | ImageModality_DWI

datatype Modality = Linear LinearModality | Image ImageModality

datatype Tracer = Tracer (Tracer_value: string)

datatype SUVRReferenceRegions = SUVRReferenceRegions (SUVRReferenceRegions_value: string)

datatype DTIMeasure = DTIMeasure (DTIMeasure_value: string)

datatype DTISpace = DTISpace (DTISpace_value: string)

record enum_module =
  Preprocessing_value :: "Preprocessing \<Rightarrow> string"
  Preprocessing_is_str :: bool
  Preprocessing_missing :: "string \<Rightarrow> error + Preprocessing"
  LinearModality_value :: "LinearModality \<Rightarrow> string"
  ImageModality_value :: "ImageModality \<Rightarrow> string"
  Tracer_is_str :: bool
  Tracer_FFDG :: Tracer
  CEREBELLUMPONS2 :: SUVRReferenceRegions
  FRACTIONAL_ANISOTROPY :: DTIMeasure
  DTISpace_ALL :: DTISpace
  DTISpace_format :: "DTISpace \<Rightarrow> string"

fun Modality_value :: "enum_module \<Rightarrow> Modality \<Rightarrow> string" where
  "Modality_value em (Linear m) = LinearModality_value em m"
| "Modality_value em (Image m) = ImageModality_value em m"

text \<open>\<open>p in Preprocessing\<close>: membership in the enumeration.\<close>

definition in_Preprocessing :: "Preprocessing \<Rightarrow> bool" where
  "in_Preprocessing p = List.member Preprocessing_members p"

text \<open>
  \<open>Preprocessing(x)\<close>: a member is returned as it is, a string is looked up among the
  values of the members.
\<close>

datatype tag_arg = Str string | Member Preprocessing

fun Preprocessing_call :: "enum_module \<Rightarrow> tag_arg \<Rightarrow> error + Preprocessing" where
  "Preprocessing_call em (Member p) = Inr p"
| "Preprocessing_call em (Str s) =
     (case find (\<lambda>m. Preprocessing_value em m = s) Preprocessing_members of
        Some m \<Rightarrow> Inr m
      | None \<Rightarrow> Preprocessing_missing em s)"

text \<open>
  The truth value of \<open>self.tracer\<close> in a condition. (That of \<open>reconstruction\<close>, an
  optional string, is false for \<open>None\<close> and for the empty string.)
\<close>

definition Tracer_bool :: "enum_module \<Rightarrow> Tracer \<Rightarrow> bool" where
  "Tracer_bool em t = (if Tracer_is_str em then Tracer_value t \<noteq> [] else True)"

section \<open>preprocessing.py\<close>

text \<open>
  The fields of \<open>PreprocessingConfig\<close>, and one constructor for each concrete class with
  the fields it adds. The base class has abstract methods and is never instantiated.
  Pydantic validates the fields on construction and on assignment, so \<open>preprocessing\<close>
  holds a member of \<open>Preprocessing\<close>; any member may be given to any class.
\<close>

record config_fields =
  from_bids :: bool
  preprocessing :: Preprocessing
  use_uncropped_image :: bool

datatype PreprocessingConfig =
    PETPreprocessingConfig config_fields Tracer SUVRReferenceRegions
  | CustomPreprocessingConfig config_fields string
  | DTIPreprocessingConfig config_fields DTIMeasure DTISpace
  | T1PreprocessingConfig config_fields
  | FlairPreprocessingConfig config_fields
  | T2PreprocessingConfig config_fields

fun fields_of :: "PreprocessingConfig \<Rightarrow> config_fields" where
  "fields_of (PETPreprocessingConfig b t r) = b"
| "fields_of (CustomPreprocessingConfig b s) = b"
| "fields_of (DTIPreprocessingConfig b m sp) = b"
| "fields_of (T1PreprocessingConfig b) = b"
| "fields_of (FlairPreprocessingConfig b) = b"
| "fields_of (T2PreprocessingConfig b) = b"

definition crop_dimension_text :: string where
  "crop_dimension_text =
     ''matrix size 169'' @ [CHR 0xD7] @ ''208'' @ [CHR 0xD7] @ ''179, 1 mm isotropic voxels''"

definition crop_text :: string where
  "crop_text = ''and cropped ('' @ crop_dimension_text @ '')''"

fun bids_nii :: "enum_module \<Rightarrow> PreprocessingConfig \<Rightarrow> string option \<Rightarrow> error + FileType" where
  "bids_nii em (PETPreprocessingConfig b tracer region) reconstruction =
     (let trc = []; rec = []; description = ''PET data'';
          (description, trc) =
             (if Tracer_bool em tracer
              then (description @ '' with '' @ Tracer_value tracer @ '' tracer'',
                    ''_trc-'' @ Tracer_value tracer)
              else (description, trc));
          (description, rec) =
             (case reconstruction of
                None \<Rightarrow> (description, rec)
              | Some r \<Rightarrow>
                  if r \<noteq> []
                  then (description @ '' and reconstruction method '' @ r, ''_rec-'' @ r)
                  else (description, rec))
      in FileType_init (''pet/*'' @ trc @ rec @ ''_pet.nii*'') description None)"
| "bids_nii em (CustomPreprocessingConfig b custom_suffix) reconstruction =
     FileType_init (''*'' @ custom_suffix) ''Custom suffix'' None"
| "bids_nii em (DTIPreprocessingConfig b dti_measure dti_space) reconstruction =
     FileType_init ''dwi/sub-*_ses-*_dwi.nii*'' ''DWI NIfTI'' None"
| "bids_nii em (T1PreprocessingConfig b) reconstruction =
     FileType_init ''anat/sub-*_ses-*_T1w.nii*'' ''T1w MRI'' None"
| "bids_nii em (FlairPreprocessingConfig b) reconstruction =
     FileType_init ''sub-*_ses-*_flair.nii*'' ''FLAIR T2w MRI'' None"
| "bids_nii em (T2PreprocessingConfig b) reconstruction =
     Inl (NotImplementedError
            (''Extraction of preprocessing '' @ Preprocessing_value em (preprocessing b) @
             '' is not implemented from BIDS directory.''))"

fun caps_nii :: "PreprocessingConfig \<Rightarrow> Preprocessing \<times> Modality" where
  "caps_nii (PETPreprocessingConfig b t r) = (preprocessing b, Image ImageModality_PET)"
| "caps_nii (CustomPreprocessingConfig b s) = (preprocessing b, Image ImageModality_CUSTOM)"
| "caps_nii (DTIPreprocessingConfig b m sp) = (preprocessing b, Image ImageModality_DWI)"
| "caps_nii (T1PreprocessingConfig b) = (preprocessing b, Linear T1W)"
| "caps_nii (FlairPreprocessingConfig b) = (preprocessing b, Linear T2W)"
| "caps_nii (T2PreprocessingConfig b) = (preprocessing b, Linear FLAIR)"

text \<open>
  \<open>linear_nii\<close> hands the member \<open>needed_pipeline\<close> to the field \<open>needed_pipeline\<close> of
  \<open>FileType\<close>, declared \<open>Optional[str]\<close>: it is accepted (as the string it is) when
  \<open>Preprocessing\<close> derives from \<open>str\<close>, and is a validation error otherwise.
\<close>

definition linear_nii :: "enum_module \<Rightarrow> PreprocessingConfig \<Rightarrow> error + FileType" where
  "linear_nii em cfg =
     (let (needed_pipeline, modality) = caps_nii cfg;
          desc_crop = (if use_uncropped_image (fields_of cfg) then [] else ''_desc-Crop'');
          p = ''*space-MNI152NLin2009cSym'' @ desc_crop @ ''_res-1x1x1_'' @
              Modality_value em modality @ ''.nii.gz'';
          d = Modality_value em modality @
              '' Image registered in MNI152NLin2009cSym space using '' @
              Preprocessing_value em needed_pipeline @ '' pipeline '' @
              (if use_uncropped_image (fields_of cfg) then [] else crop_text)
      in if Preprocessing_is_str em
         then FileType_init p d (Some (Preprocessing_value em needed_pipeline))
         else Inl (ValidationError ''Input should be a valid string''))"

fun get_filetype :: "enum_module \<Rightarrow> PreprocessingConfig \<Rightarrow> error + FileType" where
  "get_filetype em (PETPreprocessingConfig b tracer region) =
     (let des_crop = (if use_uncropped_image b then [] else ''_desc-Crop'')
      in FileType_init
           (''pet_linear/*_trc-'' @ Tracer_value tracer @ ''_space-MNI152NLin2009cSym'' @
            des_crop @ ''_res-1x1x1_suvr-'' @ SUVRReferenceRegions_value region @
            ''_pet.nii.gz'')
           [] (Some ''pet-linear''))"
| "get_filetype em (CustomPreprocessingConfig b custom_suffix) =
     bids_nii em (CustomPreprocessingConfig b custom_suffix) None"
| "get_filetype em (DTIPreprocessingConfig b dti_measure dti_space) =
     FileType_init
       (''dwi/dti_based_processing/*/*_space-'' @ DTISpace_format em dti_space @ ''_'' @
        DTIMeasure_value dti_measure @ ''.nii.gz'')
       (''DTI-based '' @ DTIMeasure_value dti_measure @ '' in space '' @
        DTISpace_format em dti_space @ ''.'')
       (Some ''dwi_dti'')"
| "get_filetype em (T1PreprocessingConfig b) = linear_nii em (T1PreprocessingConfig b)"
| "get_filetype em (FlairPreprocessingConfig b) = linear_nii em (FlairPreprocessingConfig b)"
| "get_filetype em (T2PreprocessingConfig b) = linear_nii em (T2PreprocessingConfig b)"

text \<open>\<open>compute_folder\<close> reads its argument \<open>from_bids\<close>, not the field of that name.\<close>

definition compute_folder :: "enum_module \<Rightarrow> PreprocessingConfig \<Rightarrow> bool \<Rightarrow> string" where
  "compute_folder em cfg from_bids_arg =
     (if from_bids_arg then Preprocessing_value em (preprocessing (fields_of cfg))
      else str_replace_char (CHR ''-'') (CHR ''_'')
             (Preprocessing_value em (preprocessing (fields_of cfg))))"

text \<open>The computed attribute \<open>file_type\<close>.\<close>

definition file_type :: "enum_module \<Rightarrow> PreprocessingConfig \<Rightarrow> error + FileType" where
  "file_type em cfg =
     (if from_bids (fields_of cfg) then bids_nii em cfg None
      else if \<not> in_Preprocessing (preprocessing (fields_of cfg))
      then Inl (NotImplementedError
                  (''Extraction of preprocessing '' @
                   Preprocessing_value em (preprocessing (fields_of cfg)) @
                   '' is not implemented from CAPS directory.''))
      else get_filetype em cfg)"

text \<open>
  The classes as values (\<open>get_preprocessing\<close> returns a class, not an instance), and the
  instance a class builds when it is called with no argument.
\<close>

datatype config_class =
    PETPreprocessingConfig_class
  | CustomPreprocessingConfig_class
  | DTIPreprocessingConfig_class
  | T1PreprocessingConfig_class
  | FlairPreprocessingConfig_class
  | T2PreprocessingConfig_class

definition default_fields :: "Preprocessing \<Rightarrow> config_fields" where
  "default_fields p = \<lparr>from_bids = False, preprocessing = p, use_uncropped_image = False\<rparr>"

fun construct_default :: "enum_module \<Rightarrow> config_class \<Rightarrow> PreprocessingConfig" where
  "construct_default em PETPreprocessingConfig_class =
     PETPreprocessingConfig (default_fields PET_LINEAR) (Tracer_FFDG em) (CEREBELLUMPONS2 em)"
| "construct_default em CustomPreprocessingConfig_class =
     CustomPreprocessingConfig (default_fields CUSTOM) []"
| "construct_default em DTIPreprocessingConfig_class =
     DTIPreprocessingConfig (default_fields DWI_DTI) (FRACTIONAL_ANISOTROPY em) (DTISpace_ALL em)"
| "construct_default em T1PreprocessingConfig_class =
     T1PreprocessingConfig (default_fields T1_LINEAR)"
| "construct_default em FlairPreprocessingConfig_class =
     FlairPreprocessingConfig (default_fields FLAIR_LINEAR)"
| "construct_default em T2PreprocessingConfig_class =
     T2PreprocessingConfig (default_fields T2_LINEAR)"

definition get_preprocessing :: "enum_module \<Rightarrow> tag_arg \<Rightarrow> error + config_class" where
  "get_preprocessing em preprocessing_type =
     (case Preprocessing_call em preprocessing_type of
        Inl e \<Rightarrow> Inl e
      | Inr t \<Rightarrow>
          if t = T1_LINEAR then Inr T1PreprocessingConfig_class
          else if t = PET_LINEAR then Inr PETPreprocessingConfig_class
          else if t = FLAIR_LINEAR then Inr FlairPreprocessingConfig_class
          else if t = CUSTOM then Inr CustomPreprocessingConfig_class
          else if t = DWI_DTI then Inr DTIPreprocessingConfig_class
          else Inl (ValueError
                      (''Preprocessing '' @ Preprocessing_value em t @
                       '' is not implemented.'')))"

section \<open>main.py\<close>

text \<open>
  A \<open>pathlib\<close> path on a POSIX system is determined by its root (\<open>''''\<close>, \<open>''/''\<close> or
  \<open>''//''\<close>) and the list of its components; two paths are equal when both agree.
  \<open>Path_of_str\<close> is the parsing of a string: the root is split off, the rest is split at
  \<open>/\<close>, and empty components and \<open>.\<close> are dropped. \<open>truediv\<close> is the operator \<open>/\<close> with a
  string on the right: a right operand that begins with \<open>/\<close> is absolute and replaces the
  path on the left, any other adds its components.
\<close>

record Path =
  root :: string
  parts :: "string list"

fun split_on :: "char \<Rightarrow> string \<Rightarrow> string list" where
  "split_on c [] = [[]]"
| "split_on c (x # xs) =
     (if x = c then [] # split_on c xs
      else (case split_on c xs of [] \<Rightarrow> [[x]] | y # ys \<Rightarrow> (x # y) # ys))"

definition segments :: "string \<Rightarrow> string list" where
  "segments s = filter (\<lambda>x. x \<noteq> [] \<and> x \<noteq> ''.'') (split_on (CHR ''/'') s)"

fun splitroot :: "string \<Rightarrow> string \<times> string" where
  "splitroot [] = ([], [])"
| "splitroot [a] = (if a = CHR ''/'' then (''/'', []) else ([], [a]))"
| "splitroot [a, b] =
     (if a \<noteq> CHR ''/'' then ([], [a, b])
      else if b \<noteq> CHR ''/'' then (''/'', [b])
      else (''//'', []))"
| "splitroot (a # b # c # cs) =
     (if a \<noteq> CHR ''/'' then ([], a # b # c # cs)
      else if b \<noteq> CHR ''/'' \<or> c = CHR ''/'' then (''/'', b # c # cs)
      else (''//'', c # cs))"

definition Path_of_str :: "string \<Rightarrow> Path" where
  "Path_of_str s = (let (r, rel) = splitroot s in \<lparr>root = r, parts = segments rel\<rparr>)"

definition truediv :: "Path \<Rightarrow> string \<Rightarrow> Path" where
  "truediv p key =
     (if startswith_char key (CHR ''/'') then Path_of_str key
      else p\<lparr>parts := parts p @ segments key\<rparr>)"

text \<open>
  A reader holds the directory it was built on. The check of the directory in
  \<open>Reader.__init__\<close> (\<open>check_caps_folder\<close>) belongs to a module that is not among the
  sources; a reader here is one whose construction went through.
\<close>

record CapsReader =
  input_directory :: Path

definition preprocessing_folder ::
  "enum_module \<Rightarrow> CapsReader \<Rightarrow> string \<Rightarrow> string \<Rightarrow> Preprocessing \<Rightarrow> Path" where
  "preprocessing_folder em self subject session p =
     truediv (truediv (truediv (truediv (input_directory self) ''subjects'') subject) session)
       (str_replace_char (CHR ''-'') (CHR ''_'') (Preprocessing_value em p))"

definition CapsReader_get_preprocessing ::
  "enum_module \<Rightarrow> tag_arg \<Rightarrow> error + PreprocessingConfig" where
  "CapsReader_get_preprocessing em p =
     (case get_preprocessing em p of
        Inl e \<Rightarrow> Inl e
      | Inr c \<Rightarrow> Inr (construct_default em c))"

text \<open>
  The path the specification names, \<open>root/subjects/<subject>/<session>/<tag>\<close>: the
  components of \<open>subjects/<subject>/<session>/<tag>\<close> below the root directory.
\<close>

definition spec_preprocessing_folder :: "Path \<Rightarrow> string \<Rightarrow> string \<Rightarrow> string \<Rightarrow> Path" where
  "spec_preprocessing_folder root_dir subject session tag =
     root_dir\<lparr>parts := parts root_dir @
       segments (''subjects/'' @ subject @ ''/'' @ session @ ''/'' @ tag)\<rparr>"

section \<open>A sample enum module\<close>

text \<open>
  One instance of the parameter \<open>enum_module\<close>, on which the operations are evaluated at
  concrete inputs. The theorems below hold for every instance.
\<close>

definition sample_enum_module :: enum_module where
  "sample_enum_module =
     \<lparr>Preprocessing_value =
        (\<lambda>p. case p of
           T1_LINEAR \<Rightarrow> ''t1-linear'' | T2_LINEAR \<Rightarrow> ''t2-linear''
         | FLAIR_LINEAR \<Rightarrow> ''flair-linear'' | PET_LINEAR \<Rightarrow> ''pet-linear''
         | CUSTOM \<Rightarrow> ''custom'' | DWI_DTI \<Rightarrow> ''dwi-dti''),
      Preprocessing_is_str = True,
      Preprocessing_missing = (\<lambda>s. Inl (ValueError (s @ '' is not a valid Preprocessing''))),
      LinearModality_value =
        (\<lambda>m. case m of T1W \<Rightarrow> ''T1w'' | T2W \<Rightarrow> ''T2w'' | FLAIR \<Rightarrow> ''flair''),
      ImageModality_value =
        (\<lambda>m. case m of
           ImageModality_PET \<Rightarrow> ''pet'' | ImageModality_CUSTOM \<Rightarrow> ''custom''
         | ImageModality_DWI \<Rightarrow> ''dwi''),
      Tracer_is_str = True,
      Tracer_FFDG = Tracer ''18FFDG'',
      CEREBELLUMPONS2 = SUVRReferenceRegions ''cerebellumPons2'',
      FRACTIONAL_ANISOTROPY = DTIMeasure ''FA'',
      DTISpace_ALL = DTISpace ''*'',
      DTISpace_format = DTISpace_value\<rparr>"

section \<open>Strings\<close>

lemma str_contains_middle: "str_contains (a @ sub @ b) sub"
  by (simp add: str_contains_def)

lemma str_contains_char: "str_contains s sub \<Longrightarrow> c \<in> set sub \<Longrightarrow> c \<in> set s"
  unfolding str_contains_def using set_mono_sublist by fastforce

text \<open>
  An occurrence of \<open>x @ c # y\<close> in \<open>a @ w\<close>, where the character \<open>c\<close> does not occur in
  \<open>w\<close>, has its \<open>c\<close> in \<open>a\<close>.
\<close>

lemma sublist_marker:
  assumes "sublist (x @ c # y) (a @ w)" and "c \<notin> set w"
  shows "sublist (x @ [c]) a"
proof -
  from assms(1) obtain ps ss where eq: "a @ w = ps @ (x @ c # y) @ ss"
    by (auto simp: sublist_def)
  then have "a @ w = (ps @ x) @ (c # y @ ss)" by simp
  then obtain us where
    "(a = (ps @ x) @ us \<and> us @ w = c # y @ ss) \<or> (a @ us = ps @ x \<and> w = us @ c # y @ ss)"
    unfolding append_eq_append_conv2 by blast
  then show ?thesis
  proof
    assume h: "a = (ps @ x) @ us \<and> us @ w = c # y @ ss"
    show ?thesis
    proof (cases us)
      case Nil
      with h have "w = c # y @ ss" by simp
      with assms(2) show ?thesis by simp
    next
      case (Cons u us')
      with h have "u = c" by simp
      with h Cons have "a = ps @ (x @ [c]) @ us'" by simp
      then show ?thesis unfolding sublist_def by blast
    qed
  next
    assume "a @ us = ps @ x \<and> w = us @ c # y @ ss"
    then have "c \<in> set w" by simp
    with assms(2) show ?thesis by simp
  qed
qed

lemma split_on_not_Nil: "split_on c s \<noteq> []"
  by (induction s) (auto split: list.splits)

lemma split_on_append: "split_on c (a @ c # b) = split_on c a @ split_on c b"
proof (induction a)
  case Nil
  then show ?case by simp
next
  case (Cons x a)
  then show ?case
    using split_on_not_Nil [of c a] by (auto split: list.splits)
qed

lemma segments_slash: "segments (a @ CHR ''/'' # b) = segments a @ segments b"
  by (simp add: segments_def split_on_append)

lemma segments_subjects: "segments ''subjects'' = [''subjects'']"
  by (simp add: segments_def)

section \<open>FileType\<close>

lemma FileType_init_slash:
  "FileType_init (CHR ''/'' # cs) d np = Inl (ValidationError check_pattern_message)"
  by (simp add: FileType_init_def)

lemma FileType_init_other:
  "c \<noteq> CHR ''/'' \<Longrightarrow>
   FileType_init (c # cs) d np = Inr \<lparr>pattern = c # cs, description = d, needed_pipeline = np\<rparr>"
  by (simp add: FileType_init_def)

lemma FileType_init_nonempty_iff:
  "p \<noteq> [] \<Longrightarrow> is_validation_error (FileType_init p d np) = startswith_char p (CHR ''/'')"
  by (cases p) (simp_all add: FileType_init_def is_validation_error_def)

lemma FileType_init_nonempty_accepted:
  "p \<noteq> [] \<Longrightarrow> accepted (FileType_init p d np) = (\<not> startswith_char p (CHR ''/''))"
  by (cases p) (simp_all add: FileType_init_def accepted_def)

text \<open>
  C2. The claim: the construction of a \<open>FileType\<close> fails with a validation error exactly
  when the pattern begins with \<open>/\<close>, and every other pattern, the empty string included,
  is accepted. For the non-empty patterns this is \<open>FileType_init_nonempty_iff\<close> and
  \<open>FileType_init_nonempty_accepted\<close>, with the message of \<open>FileType_init_slash\<close>. On the
  empty pattern the validator reads \<open>v[0]\<close> and raises \<open>IndexError\<close>: the pattern does not
  begin with \<open>/\<close>, and it is not accepted.
\<close>

theorem FileType_init_empty_pattern:
  "FileType_init [] d np = Inl IndexError \<and>
   \<not> startswith_char [] (CHR ''/'') \<and>
   \<not> accepted (FileType_init [] d np) \<and>
   \<not> is_validation_error (FileType_init [] d np)"
  by (simp add: FileType_init_def accepted_def is_validation_error_def)

section \<open>The registry\<close>

lemma get_preprocessing_other:
  "t \<noteq> T2_LINEAR \<Longrightarrow>
   \<exists>c. get_preprocessing em (Member t) = Inr c \<and>
       preprocessing (fields_of (construct_default em c)) = t"
  by (cases t) (simp_all add: get_preprocessing_def default_fields_def)

lemma T2PreprocessingConfig_class_default:
  "preprocessing (fields_of (construct_default em T2PreprocessingConfig_class)) = T2_LINEAR"
  by (simp add: default_fields_def)

lemma get_preprocessing_never_T2_class:
  "get_preprocessing em (Member t) \<noteq> Inr T2PreprocessingConfig_class"
  by (cases t) (simp_all add: get_preprocessing_def)

lemma CapsReader_get_preprocessing_T2_LINEAR:
  "\<exists>e. CapsReader_get_preprocessing em (Member T2_LINEAR) = Inl e"
  by (simp add: CapsReader_get_preprocessing_def get_preprocessing_def)

text \<open>
  C1. The claim: for each of the six members of \<open>Preprocessing\<close>, \<open>get_preprocessing\<close>
  returns, without raising, a class whose default instance has that member in its field
  \<open>preprocessing\<close>. It holds for five members (\<open>get_preprocessing_other\<close>). For
  \<open>T2_LINEAR\<close> the chain of comparisons has no branch: the class \<open>T2PreprocessingConfig\<close>,
  whose default is \<open>T2_LINEAR\<close> and which \<open>ALL_PREPROCESSING_TYPES\<close> lists, is never
  returned, and the call raises \<open>ValueError\<close>.
\<close>

theorem get_preprocessing_T2_LINEAR:
  "get_preprocessing em (Member T2_LINEAR) =
     Inl (ValueError
            (''Preprocessing '' @ Preprocessing_value em T2_LINEAR @ '' is not implemented.''))"
  by (simp add: get_preprocessing_def)

section \<open>The configurations\<close>

lemma in_Preprocessing_all: "in_Preprocessing p"
  by (cases p) (simp_all add: in_Preprocessing_def Preprocessing_members_def)

lemma linear_nii_result:
  "linear_nii em cfg =
     (if Preprocessing_is_str em
      then Inr \<lparr>pattern = ''*space-MNI152NLin2009cSym'' @
                  (if use_uncropped_image (fields_of cfg) then [] else ''_desc-Crop'') @
                  ''_res-1x1x1_'' @ Modality_value em (snd (caps_nii cfg)) @ ''.nii.gz'',
                description = Modality_value em (snd (caps_nii cfg)) @
                  '' Image registered in MNI152NLin2009cSym space using '' @
                  Preprocessing_value em (fst (caps_nii cfg)) @ '' pipeline '' @
                  (if use_uncropped_image (fields_of cfg) then [] else crop_text),
                needed_pipeline = Some (Preprocessing_value em (fst (caps_nii cfg)))\<rparr>
      else Inl (ValidationError ''Input should be a valid string''))"
  by (simp add: linear_nii_def FileType_init_def split: prod.splits)

text \<open>Every raw-layout builder but the one of T2 returns a file type.\<close>

lemma bids_nii_accepted:
  "(\<forall>b. cfg \<noteq> T2PreprocessingConfig b) \<Longrightarrow> \<exists>ft. bids_nii em cfg r = Inr ft"
  by (cases cfg) (simp_all add: FileType_init_def Let_def split: option.splits)

text \<open>
  A derived-layout builder returns a file type, or fails on the member handed to
  \<open>needed_pipeline\<close>; its patterns never begin with \<open>/\<close> and are never empty.
\<close>

lemma get_filetype_cases:
  "(\<exists>ft. get_filetype em cfg = Inr ft) \<or>
   get_filetype em cfg = Inl (ValidationError ''Input should be a valid string'')"
  by (cases cfg) (simp_all add: FileType_init_def Let_def linear_nii_result)

text \<open>
  C3. The attribute \<open>file_type\<close> is \<open>bids_nii()\<close> when \<open>from_bids\<close> is set; otherwise it is
  \<open>get_filetype()\<close> when the tag is a member of \<open>Preprocessing\<close>, and the error naming the
  pipeline when it is not. With \<open>from_bids\<close> set, it raises for the T2 class, and for
  every other class it returns the file type that \<open>bids_nii()\<close> returns.
\<close>

theorem file_type_resolution:
  "file_type em cfg =
     (if from_bids (fields_of cfg) then bids_nii em cfg None
      else if in_Preprocessing (preprocessing (fields_of cfg)) then get_filetype em cfg
      else Inl (NotImplementedError
                  (''Extraction of preprocessing '' @
                   Preprocessing_value em (preprocessing (fields_of cfg)) @
                   '' is not implemented from CAPS directory.''))) \<and>
   (from_bids b \<longrightarrow>
      file_type em (T2PreprocessingConfig b) =
        Inl (NotImplementedError
               (''Extraction of preprocessing '' @ Preprocessing_value em (preprocessing b) @
                '' is not implemented from BIDS directory.''))) \<and>
   (from_bids (fields_of cfg) \<and> (\<forall>b'. cfg \<noteq> T2PreprocessingConfig b') \<longrightarrow>
      (\<exists>ft. file_type em cfg = Inr ft \<and> bids_nii em cfg None = Inr ft))"
  using bids_nii_accepted [of cfg em None]
  by (auto simp add: file_type_def)

theorem file_type_resolution_witness:
  "file_type sample_enum_module
     (T2PreprocessingConfig
        \<lparr>from_bids = True, preprocessing = T2_LINEAR, use_uncropped_image = False\<rparr>) =
     Inl (NotImplementedError
            ''Extraction of preprocessing t2-linear is not implemented from BIDS directory.'') \<and>
   file_type sample_enum_module
     (T1PreprocessingConfig
        \<lparr>from_bids = True, preprocessing = T1_LINEAR, use_uncropped_image = False\<rparr>) =
     Inr \<lparr>pattern = ''anat/sub-*_ses-*_T1w.nii*'', description = ''T1w MRI'',
          needed_pipeline = None\<rparr>"
proof -
  let ?b2 = "\<lparr>from_bids = True, preprocessing = T2_LINEAR, use_uncropped_image = False\<rparr>"
  let ?b1 = "\<lparr>from_bids = True, preprocessing = T1_LINEAR, use_uncropped_image = False\<rparr>"
  note t = file_type_resolution [of sample_enum_module "T1PreprocessingConfig ?b1" ?b2]
  from t have "file_type sample_enum_module (T2PreprocessingConfig ?b2) =
     Inl (NotImplementedError
            ''Extraction of preprocessing t2-linear is not implemented from BIDS directory.'')"
    by (simp add: sample_enum_module_def)
  moreover from t have "file_type sample_enum_module (T1PreprocessingConfig ?b1) =
     Inr \<lparr>pattern = ''anat/sub-*_ses-*_T1w.nii*'', description = ''T1w MRI'',
          needed_pipeline = None\<rparr>"
    by (simp add: FileType_init_def)
  ultimately show ?thesis by simp
qed

text \<open>
  C4. The raw-layout builder of the T2 class fails with the "not implemented" error for
  every argument and every value of the fields.
\<close>

theorem T2_bids_nii_not_implemented:
  "bids_nii em (T2PreprocessingConfig b) reconstruction =
     Inl (NotImplementedError
            (''Extraction of preprocessing '' @ Preprocessing_value em (preprocessing b) @
             '' is not implemented from BIDS directory.''))"
  by simp

text \<open>
  C5. For every configuration, \<open>compute_folder(True)\<close> is the value of the tag unchanged,
  \<open>compute_folder(False)\<close> is that string with every \<open>-\<close> replaced by \<open>_\<close>, and position
  by position the second has \<open>_\<close> where the first has \<open>-\<close> and the same character
  everywhere else.
\<close>

theorem compute_folder_hyphen_underscore:
  "compute_folder em cfg True = Preprocessing_value em (preprocessing (fields_of cfg)) \<and>
   compute_folder em cfg False =
     str_replace_char (CHR ''-'') (CHR ''_'') (compute_folder em cfg True) \<and>
   list_all2 (\<lambda>h u. u = (if h = CHR ''-'' then CHR ''_'' else h))
     (compute_folder em cfg True) (compute_folder em cfg False)"
  by (simp add: compute_folder_def str_replace_char_def list_all2_conv_all_nth)

lemma crop_qualifier_absent:
  assumes "CHR ''-'' \<notin> set v"
  shows "\<not> str_contains (''*space-MNI152NLin2009cSym_res-1x1x1_'' @ v @ ''.nii.gz'')
            ''_desc-Crop''"
proof
  assume "str_contains (''*space-MNI152NLin2009cSym_res-1x1x1_'' @ v @ ''.nii.gz'')
            ''_desc-Crop''"
  then have "sublist (''_desc'' @ CHR ''-'' # ''Crop'')
               (''*space-MNI152NLin2009cSym_res-1x1x1_'' @ (v @ ''.nii.gz''))"
    by (simp add: str_contains_def)
  moreover from assms have "CHR ''-'' \<notin> set (v @ ''.nii.gz'')" by simp
  ultimately have "sublist (''_desc'' @ [CHR ''-'']) ''*space-MNI152NLin2009cSym_res-1x1x1_''"
    by (rule sublist_marker)
  then show False by code_simp
qed

lemma times_in_crop_dimension_text: "CHR 0xD7 \<in> set crop_dimension_text"
  by (simp add: crop_dimension_text_def)

lemma crop_dimension_text_absent:
  assumes "CHR 0xD7 \<notin> set v" and "CHR 0xD7 \<notin> set p"
  shows "\<not> str_contains
            (v @ '' Image registered in MNI152NLin2009cSym space using '' @ p @ '' pipeline '')
            crop_dimension_text"
proof
  assume "str_contains
            (v @ '' Image registered in MNI152NLin2009cSym space using '' @ p @ '' pipeline '')
            crop_dimension_text"
  then have "CHR 0xD7 \<in> set
            (v @ '' Image registered in MNI152NLin2009cSym space using '' @ p @ '' pipeline '')"
    using times_in_crop_dimension_text by (rule str_contains_char)
  with assms show False by simp
qed

lemma crop_text_contains: "str_contains (a @ crop_text) crop_dimension_text"
  using str_contains_middle [of "a @ ''and cropped (''" crop_dimension_text "'')''"]
  by (simp add: crop_text_def)

text \<open>
  C6. The derived-layout file type of the T1 class. When \<open>use_uncropped_image\<close> is false,
  the pattern contains \<open>_desc-Crop\<close> and the description contains the crop dimensions.
  When it is true, the pattern contains no \<open>_desc-Crop\<close> and the description no crop
  dimensions. The pattern and the description also hold the values of the modality and of
  the tag, which the enum module decides: the file type exists when \<open>Preprocessing\<close>
  derives from \<open>str\<close>, and the second part is for values that do not themselves bring a
  \<open>-\<close> (modality) or the sign of the dimensions (modality and tag).
\<close>

theorem T1_get_filetype_crop:
  assumes "Preprocessing_is_str em"
  shows
  "(\<not> use_uncropped_image b \<longrightarrow>
      (\<exists>ft. get_filetype em (T1PreprocessingConfig b) = Inr ft \<and>
            str_contains (pattern ft) ''_desc-Crop'' \<and>
            str_contains (description ft) crop_dimension_text)) \<and>
   (use_uncropped_image b \<and>
    CHR ''-'' \<notin> set (LinearModality_value em T1W) \<and>
    CHR 0xD7 \<notin> set (LinearModality_value em T1W) \<and>
    CHR 0xD7 \<notin> set (Preprocessing_value em (preprocessing b)) \<longrightarrow>
      (\<exists>ft. get_filetype em (T1PreprocessingConfig b) = Inr ft \<and>
            \<not> str_contains (pattern ft) ''_desc-Crop'' \<and>
            \<not> str_contains (description ft) crop_dimension_text))"
proof (intro conjI impI)
  assume c: "\<not> use_uncropped_image b"
  let ?v = "LinearModality_value em T1W"
  have "str_contains
          (''*space-MNI152NLin2009cSym'' @ ''_desc-Crop'' @ (''_res-1x1x1_'' @ ?v @ ''.nii.gz''))
          ''_desc-Crop''"
    by (rule str_contains_middle)
  moreover have "str_contains
     ((?v @ '' Image registered in MNI152NLin2009cSym space using '' @
        Preprocessing_value em (preprocessing b) @ '' pipeline '') @ crop_text)
     crop_dimension_text"
    by (rule crop_text_contains)
  ultimately show "\<exists>ft. get_filetype em (T1PreprocessingConfig b) = Inr ft \<and>
            str_contains (pattern ft) ''_desc-Crop'' \<and>
            str_contains (description ft) crop_dimension_text"
    using assms c by (simp add: linear_nii_result)
next
  assume u: "use_uncropped_image b \<and>
    CHR ''-'' \<notin> set (LinearModality_value em T1W) \<and>
    CHR 0xD7 \<notin> set (LinearModality_value em T1W) \<and>
    CHR 0xD7 \<notin> set (Preprocessing_value em (preprocessing b))"
  let ?v = "LinearModality_value em T1W"
  from u have h1: "CHR ''-'' \<notin> set ?v" and h2: "CHR 0xD7 \<notin> set ?v"
    and h3: "CHR 0xD7 \<notin> set (Preprocessing_value em (preprocessing b))"
    by simp_all
  have "\<not> str_contains (''*space-MNI152NLin2009cSym_res-1x1x1_'' @ ?v @ ''.nii.gz'')
          ''_desc-Crop''"
    by (rule crop_qualifier_absent [OF h1])
  moreover have "\<not> str_contains
            (?v @ '' Image registered in MNI152NLin2009cSym space using '' @
             Preprocessing_value em (preprocessing b) @ '' pipeline '')
            crop_dimension_text"
    by (rule crop_dimension_text_absent [OF h2 h3])
  ultimately show "\<exists>ft. get_filetype em (T1PreprocessingConfig b) = Inr ft \<and>
            \<not> str_contains (pattern ft) ''_desc-Crop'' \<and>
            \<not> str_contains (description ft) crop_dimension_text"
    using assms u by (simp add: linear_nii_result)
qed

theorem T1_get_filetype_crop_witness:
  "(\<exists>ft. get_filetype sample_enum_module
            (T1PreprocessingConfig
               \<lparr>from_bids = False, preprocessing = T1_LINEAR, use_uncropped_image = False\<rparr>) =
          Inr ft \<and>
         str_contains (pattern ft) ''_desc-Crop'' \<and>
         str_contains (description ft) crop_dimension_text) \<and>
   (\<exists>ft. get_filetype sample_enum_module
            (T1PreprocessingConfig
               \<lparr>from_bids = False, preprocessing = T1_LINEAR, use_uncropped_image = True\<rparr>) =
          Inr ft \<and>
         \<not> str_contains (pattern ft) ''_desc-Crop'' \<and>
         \<not> str_contains (description ft) crop_dimension_text)"
proof -
  have s: "Preprocessing_is_str sample_enum_module"
    by (simp add: sample_enum_module_def)
  have v: "LinearModality_value sample_enum_module T1W = ''T1w''"
    by (simp add: sample_enum_module_def)
  have p: "Preprocessing_value sample_enum_module T1_LINEAR = ''t1-linear''"
    by (simp add: sample_enum_module_def)
  let ?c = "\<lparr>from_bids = False, preprocessing = T1_LINEAR, use_uncropped_image = False\<rparr>"
  let ?u = "\<lparr>from_bids = False, preprocessing = T1_LINEAR, use_uncropped_image = True\<rparr>"
  from T1_get_filetype_crop [OF s, of ?c]
  have "\<exists>ft. get_filetype sample_enum_module (T1PreprocessingConfig ?c) = Inr ft \<and>
         str_contains (pattern ft) ''_desc-Crop'' \<and>
         str_contains (description ft) crop_dimension_text"
    by simp
  moreover from T1_get_filetype_crop [OF s, of ?u]
  have "\<exists>ft. get_filetype sample_enum_module (T1PreprocessingConfig ?u) = Inr ft \<and>
         \<not> str_contains (pattern ft) ''_desc-Crop'' \<and>
         \<not> str_contains (description ft) crop_dimension_text"
    by (simp add: v p)
  ultimately show ?thesis by blast
qed

text \<open>
  C7. For the PET class with the tracer whose value is \<open>FDG\<close> and the reconstruction
  \<open>OSEM\<close>, the raw-layout builder returns a file type whose pattern contains \<open>_trc-FDG\<close>
  and \<open>_rec-OSEM\<close> and whose description names the tracer and the reconstruction method.
\<close>

theorem PET_bids_nii_FDG_OSEM:
  "\<exists>ft. bids_nii em (PETPreprocessingConfig b (Tracer ''FDG'') region) (Some ''OSEM'') = Inr ft \<and>
        pattern ft = ''pet/*_trc-FDG_rec-OSEM_pet.nii*'' \<and>
        description ft = ''PET data with FDG tracer and reconstruction method OSEM'' \<and>
        str_contains (pattern ft) ''_trc-FDG'' \<and>
        str_contains (pattern ft) ''_rec-OSEM'' \<and>
        str_contains (description ft) ''FDG tracer'' \<and>
        str_contains (description ft) ''reconstruction method OSEM''"
proof -
  have 1: "bids_nii em (PETPreprocessingConfig b (Tracer ''FDG'') region) (Some ''OSEM'') =
     Inr \<lparr>pattern = ''pet/*_trc-FDG_rec-OSEM_pet.nii*'',
          description = ''PET data with FDG tracer and reconstruction method OSEM'',
          needed_pipeline = None\<rparr>"
    by (simp add: Tracer_bool_def FileType_init_def)
  have 2: "str_contains ''pet/*_trc-FDG_rec-OSEM_pet.nii*'' ''_trc-FDG''"
    unfolding str_contains_def by code_simp
  have 3: "str_contains ''pet/*_trc-FDG_rec-OSEM_pet.nii*'' ''_rec-OSEM''"
    unfolding str_contains_def by code_simp
  have 4: "str_contains ''PET data with FDG tracer and reconstruction method OSEM''
             ''FDG tracer''"
    unfolding str_contains_def by code_simp
  have 5: "str_contains ''PET data with FDG tracer and reconstruction method OSEM''
             ''reconstruction method OSEM''"
    unfolding str_contains_def by code_simp
  from 1 2 3 4 5 show ?thesis by simp
qed

text \<open>
  C9. The derived-layout identity of the FLAIR class carries the modality \<open>T2W\<close>, and the
  one of the T2 class carries the modality \<open>FLAIR\<close>, whatever the fields hold.
\<close>

theorem caps_nii_FLAIR_T2_swapped:
  "caps_nii (FlairPreprocessingConfig b) = (preprocessing b, Linear T2W) \<and>
   caps_nii (T2PreprocessingConfig b') = (preprocessing b', Linear FLAIR)"
  by simp

text \<open>
  C10. For a configuration with \<open>from_bids\<close> false, the field \<open>preprocessing\<close> is a member
  of \<open>Preprocessing\<close>, \<open>file_type\<close> is the result of \<open>get_filetype()\<close>, and \<open>file_type\<close>
  raises no \<open>NotImplementedError\<close>: the branch for an unrecognized tag is never taken.
\<close>

theorem file_type_caps_branch_unreachable:
  assumes "\<not> from_bids (fields_of cfg)"
  shows "in_Preprocessing (preprocessing (fields_of cfg)) \<and>
         file_type em cfg = get_filetype em cfg \<and>
         (\<forall>msg. file_type em cfg \<noteq> Inl (NotImplementedError msg))"
  using assms get_filetype_cases [of em cfg]
  by (auto simp add: file_type_def in_Preprocessing_all)

theorem file_type_caps_branch_unreachable_witness:
  "file_type sample_enum_module
     (T2PreprocessingConfig
        \<lparr>from_bids = False, preprocessing = T2_LINEAR, use_uncropped_image = True\<rparr>) =
   Inr \<lparr>pattern = ''*space-MNI152NLin2009cSym_res-1x1x1_flair.nii.gz'',
        description =
          ''flair Image registered in MNI152NLin2009cSym space using t2-linear pipeline '',
        needed_pipeline = Some ''t2-linear''\<rparr>"
proof -
  let ?cfg = "T2PreprocessingConfig
        \<lparr>from_bids = False, preprocessing = T2_LINEAR, use_uncropped_image = True\<rparr>"
  have "\<not> from_bids (fields_of ?cfg)" by simp
  from file_type_caps_branch_unreachable [OF this, of sample_enum_module]
  have "file_type sample_enum_module ?cfg = get_filetype sample_enum_module ?cfg"
    by simp
  then show ?thesis
    by (simp add: linear_nii_result sample_enum_module_def)
qed

section \<open>The reader\<close>

lemma truediv_relative:
  "\<not> startswith_char key (CHR ''/'') \<Longrightarrow> truediv p key = p\<lparr>parts := parts p @ segments key\<rparr>"
  by (simp add: truediv_def)

lemma spec_preprocessing_folder_parts:
  "spec_preprocessing_folder d subject session tag =
     d\<lparr>parts := parts d @ [''subjects''] @ segments subject @ segments session @ segments tag\<rparr>"
proof -
  have "segments (''subjects'' @ CHR ''/'' # (subject @ CHR ''/'' # (session @ CHR ''/'' # tag))) =
        segments ''subjects'' @ segments subject @ segments session @ segments tag"
    by (simp only: segments_slash)
  then show ?thesis
    by (simp add: spec_preprocessing_folder_def segments_subjects)
qed

lemma str_replace_char_startswith:
  "\<not> startswith_char s (CHR ''/'') \<Longrightarrow>
   \<not> startswith_char (str_replace_char (CHR ''-'') (CHR ''_'') s) (CHR ''/'')"
  by (cases s) (auto simp: str_replace_char_def)

text \<open>
  C8, as stated: for every root directory, subject and session, \<open>preprocessing_folder\<close>
  is the path \<open>root/subjects/<subject>/<session>/<tag with _ for ->\<close>. A subject that
  begins with \<open>/\<close> is an absolute right operand of \<open>/\<close>: it replaces the root directory
  and \<open>subjects\<close>, and the result is not below the root directory.
\<close>

theorem preprocessing_folder_absolute_subject:
  "preprocessing_folder sample_enum_module \<lparr>input_directory = Path_of_str ''/data''\<rparr>
     ''/x'' ''ses-M00'' T1_LINEAR =
     \<lparr>root = ''/'', parts = [''x'', ''ses-M00'', ''t1_linear'']\<rparr> \<and>
   spec_preprocessing_folder (Path_of_str ''/data'') ''/x'' ''ses-M00''
     (str_replace_char (CHR ''-'') (CHR ''_'') (Preprocessing_value sample_enum_module T1_LINEAR)) =
     \<lparr>root = ''/'', parts = [''data'', ''subjects'', ''x'', ''ses-M00'', ''t1_linear'']\<rparr> \<and>
   preprocessing_folder sample_enum_module \<lparr>input_directory = Path_of_str ''/data''\<rparr>
     ''/x'' ''ses-M00'' T1_LINEAR \<noteq>
   spec_preprocessing_folder (Path_of_str ''/data'') ''/x'' ''ses-M00''
     (str_replace_char (CHR ''-'') (CHR ''_'') (Preprocessing_value sample_enum_module T1_LINEAR))"
  by (simp add: preprocessing_folder_def truediv_def spec_preprocessing_folder_def
      sample_enum_module_def str_replace_char_def Path_of_str_def segments_def)

text \<open>
  C8, amended: for every root directory, and every subject, session and tag value that
  do not begin with \<open>/\<close>, \<open>preprocessing_folder\<close> is the path
  \<open>root/subjects/<subject>/<session>/<tag with _ for ->\<close>; with the subject \<open>sub-01\<close>, the
  session \<open>ses-M00\<close> and a tag \<open>T1_LINEAR\<close> of value \<open>t1-linear\<close> it is
  \<open>root/subjects/sub-01/ses-M00/t1_linear\<close>.
\<close>

theorem preprocessing_folder_relative:
  "(\<not> startswith_char subject (CHR ''/'') \<and> \<not> startswith_char session (CHR ''/'') \<and>
    \<not> startswith_char (Preprocessing_value em p) (CHR ''/'') \<longrightarrow>
      preprocessing_folder em self subject session p =
        spec_preprocessing_folder (input_directory self) subject session
          (str_replace_char (CHR ''-'') (CHR ''_'') (Preprocessing_value em p))) \<and>
   (Preprocessing_value em T1_LINEAR = ''t1-linear'' \<longrightarrow>
      preprocessing_folder em self ''sub-01'' ''ses-M00'' T1_LINEAR =
        (input_directory self)\<lparr>parts := parts (input_directory self) @
           [''subjects'', ''sub-01'', ''ses-M00'', ''t1_linear'']\<rparr>)"
proof (intro conjI impI)
  assume h: "\<not> startswith_char subject (CHR ''/'') \<and> \<not> startswith_char session (CHR ''/'') \<and>
    \<not> startswith_char (Preprocessing_value em p) (CHR ''/'')"
  then have "\<not> startswith_char
               (str_replace_char (CHR ''-'') (CHR ''_'') (Preprocessing_value em p)) (CHR ''/'')"
    by (simp add: str_replace_char_startswith)
  with h show "preprocessing_folder em self subject session p =
        spec_preprocessing_folder (input_directory self) subject session
          (str_replace_char (CHR ''-'') (CHR ''_'') (Preprocessing_value em p))"
    by (simp add: preprocessing_folder_def truediv_relative spec_preprocessing_folder_parts
        segments_subjects)
next
  assume "Preprocessing_value em T1_LINEAR = ''t1-linear''"
  then show "preprocessing_folder em self ''sub-01'' ''ses-M00'' T1_LINEAR =
        (input_directory self)\<lparr>parts := parts (input_directory self) @
           [''subjects'', ''sub-01'', ''ses-M00'', ''t1_linear'']\<rparr>"
    by (simp add: preprocessing_folder_def truediv_def str_replace_char_def segments_def)
qed

theorem preprocessing_folder_relative_witness:
  "preprocessing_folder sample_enum_module \<lparr>input_directory = Path_of_str ''/data''\<rparr>
     ''sub-01'' ''ses-M00'' T1_LINEAR =
   \<lparr>root = ''/'', parts = [''data'', ''subjects'', ''sub-01'', ''ses-M00'', ''t1_linear'']\<rparr> \<and>
   preprocessing_folder sample_enum_module \<lparr>input_directory = Path_of_str ''/data''\<rparr>
     ''sub-01'' ''ses-M00'' T1_LINEAR =
   spec_preprocessing_folder (Path_of_str ''/data'') ''sub-01'' ''ses-M00'' ''t1_linear''"
proof -
  have v: "Preprocessing_value sample_enum_module T1_LINEAR = ''t1-linear''"
    by (simp add: sample_enum_module_def)
  note t = preprocessing_folder_relative
    [of "''sub-01''" "''ses-M00''" sample_enum_module T1_LINEAR
        "\<lparr>input_directory = Path_of_str ''/data''\<rparr>"]
  from t v have "preprocessing_folder sample_enum_module
       \<lparr>input_directory = Path_of_str ''/data''\<rparr> ''sub-01'' ''ses-M00'' T1_LINEAR =
     \<lparr>root = ''/'', parts = [''data'', ''subjects'', ''sub-01'', ''ses-M00'', ''t1_linear'']\<rparr>"
    by (simp add: Path_of_str_def segments_def spec_preprocessing_folder_def
        str_replace_char_def)
  moreover from t v have "preprocessing_folder sample_enum_module
       \<lparr>input_directory = Path_of_str ''/data''\<rparr> ''sub-01'' ''ses-M00'' T1_LINEAR =
     spec_preprocessing_folder (Path_of_str ''/data'') ''sub-01'' ''ses-M00'' ''t1_linear''"
    by (simp add: Path_of_str_def segments_def spec_preprocessing_folder_def
        str_replace_char_def)
  ultimately show ?thesis by simp
qed

end
